theory Spec2Isabelle
  imports Complex_Main "HOL-Library.Char_ord" "HOL-Library.List_Lexorder" "HOL-Library.Log_Nat"
begin

section \<open>Strings\<close>

text \<open>
  Python strings are sequences of code points; the model uses \<^typ>\<open>string\<close>, read as
  code points 0 to 255. On that range \<^verbatim>\<open>str.lower()\<close> moves A-Z and the upper-case
  letters of the Latin-1 block (192 to 222, the multiplication sign 215 excepted) up by 32
  and leaves everything else alone.
\<close>

definition lower_char :: "char \<Rightarrow> char" where
  "lower_char c =
     (let n = (of_char c :: nat)
      in if 65 \<le> n \<and> n \<le> 90 then char_of (n + 32)
         else if 192 \<le> n \<and> n \<le> 222 \<and> n \<noteq> 215 then char_of (n + 32)
         else c)"

definition lower :: "string \<Rightarrow> string" where
  "lower s = map lower_char s"

text \<open>\<^verbatim>\<open>s.replace(" ", "_")\<close>: a one-character pattern, replaced everywhere.\<close>

definition replace_space :: "string \<Rightarrow> string" where
  "replace_space s = map (\<lambda>c. if c = CHR '' '' then CHR ''_'' else c) s"

text \<open>Python's truth value of an optional string argument: None and the empty string are false.\<close>

fun truthy :: "string option \<Rightarrow> bool" where
  "truthy None = False"
| "truthy (Some s) = (s \<noteq> [])"

section \<open>Documents and the simulated NoSQL store\<close>

text \<open>
  A macronutrient cell is a float that may be NaN (pandas' null). The model keeps the
  finite values as exact rationals and NaN as \<open>None\<close>; rounding and overflow of the
  machine floats are outside the model.
\<close>

type_synonym cell = "rat option"

type_synonym timestamp = string

record macros =
  protein_g :: cell
  carbs_g :: cell
  fat_g :: cell

record diet_document =
  doc_id :: string
  diet_type :: string
  macronutrients :: macros
  recipe_count :: nat
  cuisines :: "(string \<times> nat) list"
  created_at :: timestamp
  updated_at :: timestamp

text \<open>
  What \<^verbatim>\<open>query_nosql\<close> prints: the filtered list for a query with a diet type, the
  listing of all documents otherwise, the error line when the file is missing.
\<close>

datatype query_print =
  PrintQuery string "diet_document list"
  | PrintAll "diet_document list"
  | PrintNotFound

text \<open>
  \<^verbatim>\<open>query_nosql(self, diet_type=None)\<close>. The first argument is the content of
  \<^verbatim>\<open>diet_documents.json\<close>, \<open>None\<close> when the file does not exist (the
  \<^verbatim>\<open>FileNotFoundError\<close> branch). The result pairs what is printed with what is
  returned; the returned \<open>None\<close> is Python's \<^verbatim>\<open>None\<close>.
\<close>

definition query_nosql ::
  "diet_document list option \<Rightarrow> string option \<Rightarrow> query_print \<times> diet_document list option" where
  "query_nosql file dt =
     (case file of
        None \<Rightarrow> (PrintNotFound, None)
      | Some documents \<Rightarrow>
          if truthy dt then
            let result = filter (\<lambda>doc. lower (diet_type doc) = lower (the dt)) documents
            in (PrintQuery (the dt) result, Some documents)
          else (PrintAll documents, Some documents))"

text \<open>The specification's reading of the query: the matching subsequence.\<close>

definition matching_documents :: "diet_document list \<Rightarrow> string \<Rightarrow> diet_document list" where
  "matching_documents documents dt =
     filter (\<lambda>doc. lower (diet_type doc) = lower dt) documents"

definition vegan_document :: diet_document where
  "vegan_document =
     \<lparr>doc_id = ''vegan'', diet_type = ''vegan'',
      macronutrients = \<lparr>protein_g = Some 10, carbs_g = Some 40, fat_g = Some 2\<rparr>,
      recipe_count = 1, cuisines = [(''asian'', 1)],
      created_at = ''t1'', updated_at = ''t2''\<rparr>"

section \<open>The dataset and the dataframe operations\<close>

text \<open>
  One row of the CSV file. The string columns are taken as present in every row; the
  three numeric columns may be null.
\<close>

record row =
  Diet_type :: string
  Cuisine_type :: string
  Recipe_name :: string
  Protein :: cell
  Carbs :: cell
  Fat :: cell

type_synonym dataframe = "row list"

text \<open>The non-null values of a column, in order.\<close>

fun dropna :: "'a option list \<Rightarrow> 'a list" where
  "dropna [] = []"
| "dropna (None # xs) = dropna xs"
| "dropna (Some v # xs) = v # dropna xs"

text \<open>
  \<^verbatim>\<open>Series.mean()\<close>, \<^verbatim>\<open>.max()\<close> and \<^verbatim>\<open>.min()\<close> skip nulls and give NaN when nothing
  is left.
\<close>

definition series_mean :: "cell list \<Rightarrow> cell" where
  "series_mean xs =
     (let vs = dropna xs
      in if vs = [] then None else Some (sum_list vs / of_nat (length vs)))"

definition series_max :: "cell list \<Rightarrow> cell" where
  "series_max xs = (case dropna xs of [] \<Rightarrow> None | v # vs \<Rightarrow> Some (fold max vs v))"

definition series_min :: "cell list \<Rightarrow> cell" where
  "series_min xs = (case dropna xs of [] \<Rightarrow> None | v # vs \<Rightarrow> Some (fold min vs v))"

text \<open>\<^verbatim>\<open>Series.unique()\<close>: the distinct values in order of first appearance.\<close>

fun unique :: "'a list \<Rightarrow> 'a list" where
  "unique [] = []"
| "unique (x # xs) = x # unique (filter (\<lambda>y. y \<noteq> x) xs)"

text \<open>
  Modelled from the spec: the order in which \<^verbatim>\<open>Series.value_counts()\<close> of the
  pandas library lists values of equal count, which no file of the repository fixes.
  Every distinct value comes with its number of occurrences, by descending count; ties in
  frequency are broken by first-encountered order (a stable sort of the values in order
  of first appearance).
\<close>

definition value_counts :: "string list \<Rightarrow> (string \<times> nat) list" where
  "value_counts xs =
     sort_key (\<lambda>p. - int (snd p)) (map (\<lambda>c. (c, count_list xs c)) (unique xs))"

text \<open>\<^verbatim>\<open>df[df["Diet_type"] == diet_type]\<close>\<close>

definition diet_rows :: "dataframe \<Rightarrow> string \<Rightarrow> dataframe" where
  "diet_rows df d = filter (\<lambda>r. Diet_type r = d) df"

section \<open>Average macronutrients per diet type\<close>

record means =
  mean_protein :: cell
  mean_carbs :: cell
  mean_fat :: cell

text \<open>
  \<^verbatim>\<open>df.groupby("Diet_type")[["Protein(g)", "Carbs(g)", "Fat(g)"]].mean()\<close>: one row per
  group, indexed by the group key, the keys sorted.
\<close>

definition groupby_mean :: "dataframe \<Rightarrow> (string \<times> means) list" where
  "groupby_mean df =
     map (\<lambda>d. (d, \<lparr>mean_protein = series_mean (map Protein (diet_rows df d)),
                    mean_carbs = series_mean (map Carbs (diet_rows df d)),
                    mean_fat = series_mean (map Fat (diet_rows df d))\<rparr>))
       (sort (remdups (map Diet_type df)))"

definition calculate_averages :: "dataframe \<Rightarrow> (string \<times> means) list" where
  "calculate_averages df = groupby_mean df"

definition calculate_average_macros :: "dataframe \<Rightarrow> (string \<times> means) list" where
  "calculate_average_macros df = groupby_mean df"

text \<open>
  The specification's mean of a field over a set of records: sum and count over the
  records whose value for that field is not null, undefined when there is none.
\<close>

definition spec_mean :: "(row \<Rightarrow> cell) \<Rightarrow> row list \<Rightarrow> cell" where
  "spec_mean f rs =
     (let present = filter (\<lambda>r. f r \<noteq> None) rs
      in if present = [] then None
         else Some ((\<Sum>r\<leftarrow>present. the (f r)) / of_nat (length present)))"

section \<open>Storing the results\<close>

record diet_aggregate =
  count :: nat
  avg_protein :: cell
  avg_carbs :: cell
  avg_fat :: cell
  max_protein :: cell
  min_protein :: cell
  top_cuisines :: "(string \<times> nat) list"

record metadata =
  processed_at :: timestamp
  total_records :: nat
  diet_types :: "string list"
  cuisine_types :: "string list"
  source_blob :: string
  source_container :: string

text \<open>
  The directory \<^verbatim>\<open>simulated_nosql\<close>: each of its four JSON files is absent or holds a
  value. A JSON object is kept as an association list in insertion order.
\<close>

record nosql =
  avg_macronutrients :: "(string \<times> means) list option"
  detailed_statistics :: "(string \<times> diet_aggregate) list option"
  metadata_file :: "metadata option"
  diet_documents :: "diet_document list option"

text \<open>Step 2 of \<^verbatim>\<open>store_in_nosql\<close>: the loop over \<^verbatim>\<open>df["Diet_type"].unique()\<close>.\<close>

definition detailed_stats :: "dataframe \<Rightarrow> (string \<times> diet_aggregate) list" where
  "detailed_stats df =
     map (\<lambda>d. let diet_data = diet_rows df d
              in (d, \<lparr>count = length diet_data,
                      avg_protein = series_mean (map Protein diet_data),
                      avg_carbs = series_mean (map Carbs diet_data),
                      avg_fat = series_mean (map Fat diet_data),
                      max_protein = series_max (map Protein diet_data),
                      min_protein = series_min (map Protein diet_data),
                      top_cuisines = take 3 (value_counts (map Cuisine_type diet_data))\<rparr>))
       (unique (map Diet_type df))"

text \<open>
  Step 4: the loop over the rows of \<^verbatim>\<open>avg_macros\<close>. The clock is the sequence of values
  that successive calls of \<^verbatim>\<open>datetime.now().isoformat()\<close> return; \<open>k\<close> is the number of
  calls made so far.
\<close>

fun build_documents ::
  "(nat \<Rightarrow> timestamp) \<Rightarrow> nat \<Rightarrow> dataframe \<Rightarrow> (string \<times> means) list \<Rightarrow> diet_document list" where
  "build_documents now k df [] = []"
| "build_documents now k df ((d, m) # rest) =
     (let diet_data = diet_rows df d
      in \<lparr>doc_id = replace_space (lower d),
          diet_type = d,
          macronutrients =
            \<lparr>protein_g = mean_protein m, carbs_g = mean_carbs m, fat_g = mean_fat m\<rparr>,
          recipe_count = length diet_data,
          cuisines = take 5 (value_counts (map Cuisine_type diet_data)),
          created_at = now k,
          updated_at = now (Suc k)\<rparr>)
     # build_documents now (Suc (Suc k)) df rest"

text \<open>
  \<^verbatim>\<open>store_in_nosql(self, avg_macros, df)\<close>: the four files are opened for writing, so
  whatever they held before is replaced. The result is the new directory and the returned
  \<^verbatim>\<open>results\<close>.
\<close>

definition store_in_nosql ::
  "(nat \<Rightarrow> timestamp) \<Rightarrow> (string \<times> means) list \<Rightarrow> dataframe \<Rightarrow> nosql
     \<Rightarrow> nosql \<times> (string \<times> means) list" where
  "store_in_nosql now avg_macros df dir =
     (let results = avg_macros;
          dir1 = dir\<lparr>avg_macronutrients := Some results\<rparr>;
          dir2 = dir1\<lparr>detailed_statistics := Some (detailed_stats df)\<rparr>;
          dir3 = dir2\<lparr>metadata_file := Some
                   \<lparr>processed_at = now 0,
                    total_records = length df,
                    diet_types = unique (map Diet_type df),
                    cuisine_types = unique (map Cuisine_type df),
                    source_blob = ''AllDiets.csv'',
                    source_container = ''datasets''\<rparr>\<rparr>;
          dir4 = dir3\<lparr>diet_documents := Some (build_documents now 1 df avg_macros)\<rparr>
      in (dir4, results))"

text \<open>
  \<^verbatim>\<open>process_data\<close>: \<open>conn_ok\<close> is the outcome of the connection test, \<open>upload_ok\<close>
  that of the optional upload (true when there is nothing to upload), \<open>blob\<close> the
  dataframe read from the blob, \<open>None\<close> when reading fails.
\<close>

definition process_data ::
  "(nat \<Rightarrow> timestamp) \<Rightarrow> bool \<Rightarrow> bool \<Rightarrow> dataframe option \<Rightarrow> nosql \<Rightarrow> nosql \<times> string" where
  "process_data now conn_ok upload_ok blob dir =
     (if \<not> conn_ok then (dir, ''Failed: Azurite is not running or not accessible'')
      else if \<not> upload_ok then (dir, ''Failed: Could not upload CSV to Azurite'')
      else case blob of
             None \<Rightarrow> (dir, ''Failed: Could not read data from Azurite'')
           | Some df \<Rightarrow>
               (fst (store_in_nosql now (calculate_averages df) df dir),
                ''Data processed and stored successfully''))"

text \<open>The directory before the first run.\<close>

definition empty_store :: nosql where
  "empty_store =
     \<lparr>avg_macronutrients = None, detailed_statistics = None, metadata_file = None,
      diet_documents = None\<rparr>"

text \<open>The content of the store with the three kinds of timestamp removed.\<close>

definition document_content ::
  "diet_document \<Rightarrow> string \<times> string \<times> macros \<times> nat \<times> (string \<times> nat) list" where
  "document_content doc =
     (doc_id doc, diet_type doc, macronutrients doc, recipe_count doc, cuisines doc)"

definition metadata_content ::
  "metadata \<Rightarrow> nat \<times> string list \<times> string list \<times> string \<times> string" where
  "metadata_content m =
     (total_records m, diet_types m, cuisine_types m, source_blob m, source_container m)"

definition store_content ::
  "nosql \<Rightarrow> (string \<times> means) list option \<times> (string \<times> diet_aggregate) list option
     \<times> (nat \<times> string list \<times> string list \<times> string \<times> string) option
     \<times> (string \<times> string \<times> macros \<times> nat \<times> (string \<times> nat) list) list option" where
  "store_content dir =
     (avg_macronutrients dir, detailed_statistics dir,
      map_option metadata_content (metadata_file dir),
      map_option (map document_content) (diet_documents dir))"

section \<open>The mean in binary64 arithmetic\<close>

text \<open>
  The means above are taken in exact arithmetic. The code computes them in binary64:
  the values are floats, every sum and the final quotient are rounded to the nearest
  float, ties to the even significand. A float is kept as the rational it denotes. The
  exponent range is not bounded here: overflow to infinity and the subnormal range are
  outside the model.

  \<open>binade x\<close> is the exponent \<open>e\<close> of the power of two at or below \<open>|x|\<close>, so that
  \<open>|x|\<close> is less than the next power; it is found from the bit lengths of numerator and
  denominator. A float of that binade is a multiple of two to the power \<open>e - 52\<close>.
\<close>

definition binade :: "rat \<Rightarrow> int" where
  "binade x =
     (let (p, q) = quotient_of x; d = bitlen \<bar>p\<bar> - bitlen q
      in if 2 powi d \<le> \<bar>x\<bar> then d else d - 1)"

definition round_half_even :: "rat \<Rightarrow> int" where
  "round_half_even q =
     (let f = \<lfloor>q\<rfloor>; r = q - of_int f
      in if r < 1 / 2 then f else if 1 / 2 < r then f + 1 else if even f then f else f + 1)"

definition round64 :: "rat \<Rightarrow> rat" where
  "round64 x =
     (if x = 0 then 0
      else let ulp = 2 powi (binade x - 52)
           in of_int (round_half_even (x / ulp)) * ulp)"

definition f64_add :: "rat \<Rightarrow> rat \<Rightarrow> rat" where
  "f64_add a b = round64 (a + b)"







section \<open>The analysis script\<close>

text \<open>
  \<^verbatim>\<open>Series.fillna(value)\<close>: nulls become \<open>value\<close>, which is itself NaN when the
  column has no value at all.
\<close>

definition fillna :: "cell \<Rightarrow> cell \<Rightarrow> cell" where
  "fillna v x = (case x of None \<Rightarrow> v | Some y \<Rightarrow> Some y)"

text \<open>
  \<^verbatim>\<open>load_and_clean_data\<close>, after the file is read: the three numeric columns are filled
  one after the other (all three are columns of the frame), each with its own mean over
  the whole frame. The in-place \<^verbatim>\<open>fillna\<close> on the selected column is taken to
  write through to the frame.
\<close>

definition load_and_clean_data :: "dataframe \<Rightarrow> dataframe" where
  "load_and_clean_data df =
     (let m1 = series_mean (map Protein df);
          df1 = map (\<lambda>r. r\<lparr>Protein := fillna m1 (Protein r)\<rparr>) df;
          m2 = series_mean (map Carbs df1);
          df2 = map (\<lambda>r. r\<lparr>Carbs := fillna m2 (Carbs r)\<rparr>) df1;
          m3 = series_mean (map Fat df2);
          df3 = map (\<lambda>r. r\<lparr>Fat := fillna m3 (Fat r)\<rparr>) df2
      in df3)"

text \<open>
  The float results of an elementwise division: a finite quotient, an infinity (a
  non-zero value over zero) or NaN (zero over zero, or a null operand).
\<close>

datatype npfloat = Finite rat | Infinity | NaN

fun np_divide :: "cell \<Rightarrow> cell \<Rightarrow> npfloat" where
  "np_divide (Some a) (Some b) =
     (if b \<noteq> 0 then Finite (a / b) else if a \<noteq> 0 then Infinity else NaN)"
| "np_divide _ _ = NaN"

text \<open>\<^verbatim>\<open>column != 0\<close>: a null compares unequal to everything.\<close>

definition ne_zero :: "cell \<Rightarrow> bool" where
  "ne_zero x = (x \<noteq> Some 0)"

text \<open>\<^verbatim>\<open>np.where(cond, a, b)\<close> on one element: both \<open>a\<close> and \<open>b\<close> are already computed.\<close>

definition np_where :: "bool \<Rightarrow> npfloat \<Rightarrow> npfloat \<Rightarrow> npfloat" where
  "np_where c a b = (if c then a else b)"

record ratios =
  Protein_to_Carbs_ratio :: npfloat
  Carbs_to_Fat_ratio :: npfloat

text \<open>\<^verbatim>\<open>add_new_metrics\<close> on one row, and on the frame: every row with its two new columns.\<close>

definition row_metrics :: "row \<Rightarrow> ratios" where
  "row_metrics r =
     \<lparr>Protein_to_Carbs_ratio =
        np_where (ne_zero (Carbs r)) (np_divide (Protein r) (Carbs r)) NaN,
      Carbs_to_Fat_ratio =
        np_where (ne_zero (Fat r)) (np_divide (Carbs r) (Fat r)) NaN\<rparr>"

definition add_new_metrics :: "dataframe \<Rightarrow> (row \<times> ratios) list" where
  "add_new_metrics df = map (\<lambda>r. (r, row_metrics r)) df"

section \<open>Notions used to state the properties\<close>

text \<open>The position at which a value is first seen in a list.\<close>

fun first_pos :: "'a list \<Rightarrow> 'a \<Rightarrow> nat" where
  "first_pos [] x = 0"
| "first_pos (y # ys) x = (if x = y then 0 else Suc (first_pos ys x))"

text \<open>
  The order of a ranking over the cuisines \<open>cs\<close> of a group: a larger count first, and
  among equal counts the cuisine seen first in \<open>cs\<close>.
\<close>

definition ranked_before :: "string list \<Rightarrow> string \<times> nat \<Rightarrow> string \<times> nat \<Rightarrow> bool" where
  "ranked_before cs p q =
     (snd q < snd p \<or> (snd p = snd q \<and> first_pos cs (fst p) < first_pos cs (fst q)))"

text \<open>
  A list of cuisine counts is a top-\<open>k\<close> ranking of the cuisines \<open>cs\<close> of a group: at
  most \<open>k\<close> entries, in ranking order, each a cuisine of the group with its number of
  occurrences, the counts summing to at most the size of the group.
\<close>

definition top_ranking :: "nat \<Rightarrow> string list \<Rightarrow> (string \<times> nat) list \<Rightarrow> bool" where
  "top_ranking k cs tops =
     (length tops \<le> k
      \<and> sorted_wrt (ranked_before cs) tops
      \<and> list_all (\<lambda>p. fst p \<in> set cs \<and> snd p = count_list cs (fst p)) tops
      \<and> sum_list (map snd tops) \<le> length cs)"

text \<open>
  The specification's identifier of a diet type, written out letter by letter: every
  upper-case letter becomes the lower-case letter at the same place of the alphabet
  (A to Z, then the accented capitals of the Latin-1 block), every space becomes an
  underscore, and every other character stays.
\<close>

definition upper_letters :: string where
  "upper_letters =
     ''ABCDEFGHIJKLMNOPQRSTUVWXYZ'' @
       [CHR 0xC0, CHR 0xC1, CHR 0xC2, CHR 0xC3, CHR 0xC4, CHR 0xC5, CHR 0xC6, CHR 0xC7,
        CHR 0xC8, CHR 0xC9, CHR 0xCA, CHR 0xCB, CHR 0xCC, CHR 0xCD, CHR 0xCE, CHR 0xCF,
        CHR 0xD0, CHR 0xD1, CHR 0xD2, CHR 0xD3, CHR 0xD4, CHR 0xD5, CHR 0xD6, CHR 0xD8,
        CHR 0xD9, CHR 0xDA, CHR 0xDB, CHR 0xDC, CHR 0xDD, CHR 0xDE]"

definition lower_letters :: string where
  "lower_letters =
     ''abcdefghijklmnopqrstuvwxyz'' @
       [CHR 0xE0, CHR 0xE1, CHR 0xE2, CHR 0xE3, CHR 0xE4, CHR 0xE5, CHR 0xE6, CHR 0xE7,
        CHR 0xE8, CHR 0xE9, CHR 0xEA, CHR 0xEB, CHR 0xEC, CHR 0xED, CHR 0xEE, CHR 0xEF,
        CHR 0xF0, CHR 0xF1, CHR 0xF2, CHR 0xF3, CHR 0xF4, CHR 0xF5, CHR 0xF6, CHR 0xF8,
        CHR 0xF9, CHR 0xFA, CHR 0xFB, CHR 0xFC, CHR 0xFD, CHR 0xFE]"

definition spec_id_char :: "char \<Rightarrow> char" where
  "spec_id_char c =
     (case map_of (zip upper_letters lower_letters) c of
        Some l \<Rightarrow> l
      | None \<Rightarrow> if c = CHR '' '' then CHR ''_'' else c)"

definition spec_document_id :: "string \<Rightarrow> string" where
  "spec_document_id d = map spec_id_char d"

text \<open>All 256 characters, by their bits.\<close>

definition bools :: "bool list" where
  "bools = [False, True]"

definition all_chars :: "char list" where
  "all_chars =
     concat (map (\<lambda>b7. concat (map (\<lambda>b6. concat (map (\<lambda>b5. concat (map (\<lambda>b4.
       concat (map (\<lambda>b3. concat (map (\<lambda>b2. concat (map (\<lambda>b1. map (\<lambda>b0.
         Char b0 b1 b2 b3 b4 b5 b6 b7) bools) bools)) bools)) bools)) bools)) bools)) bools)) bools)"

text \<open>
  The value of field \<open>f\<close> of a record after imputation: a null becomes the mean of the
  field over the whole dataset.
\<close>

definition imputed :: "(row \<Rightarrow> cell) \<Rightarrow> dataframe \<Rightarrow> row \<Rightarrow> cell" where
  "imputed f df r = (case f r of None \<Rightarrow> spec_mean f df | Some v \<Rightarrow> Some v)"

text \<open>The three fills of \<^const>\<open>load_and_clean_data\<close> on one row, for the proofs.\<close>

definition clean_row :: "dataframe \<Rightarrow> row \<Rightarrow> row" where
  "clean_row df r =
     r\<lparr>Protein := fillna (series_mean (map Protein df)) (Protein r),
       Carbs := fillna (series_mean (map Carbs df)) (Carbs r),
       Fat := fillna (series_mean (map Fat df)) (Fat r)\<rparr>"

text \<open>Example data: the scenario of the specification, and frames with nulls.\<close>

definition scenario :: dataframe where
  "scenario =
     [\<lparr>Diet_type = ''paleo'', Cuisine_type = ''american'', Recipe_name = ''a'',
       Protein = Some 30, Carbs = Some 5, Fat = Some 10\<rparr>,
      \<lparr>Diet_type = ''paleo'', Cuisine_type = ''american'', Recipe_name = ''b'',
       Protein = Some 20, Carbs = Some 0, Fat = Some 10\<rparr>,
      \<lparr>Diet_type = ''vegan'', Cuisine_type = ''asian'', Recipe_name = ''c'',
       Protein = Some 10, Carbs = Some 40, Fat = Some 2\<rparr>]"

definition sparse_frame :: dataframe where
  "sparse_frame =
     [\<lparr>Diet_type = ''paleo'', Cuisine_type = ''american'', Recipe_name = ''a'',
       Protein = Some 30, Carbs = Some 5, Fat = Some 10\<rparr>,
      \<lparr>Diet_type = ''paleo'', Cuisine_type = ''american'', Recipe_name = ''b'',
       Protein = None, Carbs = None, Fat = None\<rparr>,
      \<lparr>Diet_type = ''vegan'', Cuisine_type = ''asian'', Recipe_name = ''c'',
       Protein = Some 10, Carbs = Some 40, Fat = Some 2\<rparr>]"

definition zero_carbs_row :: row where
  "zero_carbs_row =
     \<lparr>Diet_type = ''paleo'', Cuisine_type = ''american'', Recipe_name = ''b'',
      Protein = Some 20, Carbs = Some 0, Fat = Some 10\<rparr>"

definition null_protein_row :: row where
  "null_protein_row =
     \<lparr>Diet_type = ''paleo'', Cuisine_type = ''american'', Recipe_name = ''b'',
      Protein = None, Carbs = Some 5, Fat = Some 10\<rparr>"

text \<open>
  Three paleo records whose protein is the float nearest to 0.1, and a frame whose diet
  types need lower-casing and underscores.
\<close>

definition tenth :: rat where
  "tenth = 3602879701896397 / 36028797018963968"


definition named_frame :: dataframe where
  "named_frame =
     [\<lparr>Diet_type = ''keto'', Cuisine_type = ''american'', Recipe_name = ''a'',
       Protein = Some 30, Carbs = Some 5, Fat = Some 10\<rparr>,
      \<lparr>Diet_type = ''Keto Diet'', Cuisine_type = ''american'', Recipe_name = ''b'',
       Protein = Some 20, Carbs = Some 0, Fat = Some 10\<rparr>,
      \<lparr>Diet_type = ''DASH'', Cuisine_type = ''asian'', Recipe_name = ''c'',
       Protein = Some 10, Carbs = Some 40, Fat = Some 2\<rparr>,
      \<lparr>Diet_type = ''keto'', Cuisine_type = ''asian'', Recipe_name = ''d'',
       Protein = Some 10, Carbs = Some 40, Fat = Some 2\<rparr>]"

section \<open>Properties of the query\<close>

lemma lower_keto_vegan: "lower ''vegan'' \<noteq> lower ''keto''"
  by (simp add: lower_def lower_char_def)

lemma lower_Paleo: "lower ''Paleo'' = ''paleo'' \<and> lower ''paleo'' = ''paleo''"
  by code_simp

text \<open>
  C1. With a diet type given, the query computes the case-insensitive matches and prints
  them, but the value it returns is the whole document list: for the store holding the
  single vegan document and the filter keto, the matches are empty and the returned
  sequence is not.
\<close>

theorem query_nosql_returns_unfiltered:
  "query_nosql (Some [vegan_document]) (Some ''keto'')
     = (PrintQuery ''keto'' [], Some [vegan_document])
   \<and> matching_documents [vegan_document] ''keto'' = []"
  using lower_keto_vegan
  by (simp add: query_nosql_def matching_documents_def vegan_document_def)

text \<open>
  C7. A query on an absent document file returns \<open>None\<close> after printing the not-found
  line, and no query on a present file returns \<open>None\<close>: the absent store is told apart
  from every successful query, the one with zero documents included.
\<close>

theorem query_nosql_not_found:
  "query_nosql None dt = (PrintNotFound, None)
   \<and> snd (query_nosql (Some documents) dt) = Some documents
   \<and> (snd (query_nosql file dt) = None) = (file = None)"
  by (simp add: query_nosql_def split: option.splits)

section \<open>Distinct values, counts and rankings\<close>

lemma set_unique: "set (unique xs) = set xs"
  by (induction xs rule: unique.induct) auto

lemma distinct_unique: "distinct (unique xs)"
  by (induction xs rule: unique.induct) (auto simp: set_unique)

lemma sum_count_unique: "(\<Sum>c\<leftarrow>unique xs. count_list xs c) = length xs"
proof -
  have "(\<Sum>c\<leftarrow>unique xs. count_list xs c) = sum (count_list xs) (set (unique xs))"
    by (simp add: sum_list_distinct_conv_sum_set distinct_unique)
  also have "\<dots> = length xs"
    by (simp add: set_unique sum_count_set)
  finally show ?thesis .
qed

lemma first_pos_filter:
  "z \<noteq> x \<Longrightarrow> w \<noteq> x \<Longrightarrow>
   (first_pos (filter (\<lambda>y. y \<noteq> x) xs) z < first_pos (filter (\<lambda>y. y \<noteq> x) xs) w)
     = (first_pos xs z < first_pos xs w)"
  by (induction xs) auto

lemma unique_first_pos: "sorted_wrt (\<lambda>a b. first_pos xs a < first_pos xs b) (unique xs)"
proof (induction xs rule: unique.induct)
  case 1
  show ?case by simp
next
  case (2 x xs)
  let ?F = "filter (\<lambda>y. y \<noteq> x) xs"
  have tail: "sorted_wrt (\<lambda>a b. first_pos (x # xs) a < first_pos (x # xs) b) (unique ?F)"
  proof (rule sorted_wrt_mono_rel [OF _ "2.IH"])
    fix a b
    assume "a \<in> set (unique ?F)" "b \<in> set (unique ?F)"
      and lt: "first_pos ?F a < first_pos ?F b"
    then have "a \<noteq> x" "b \<noteq> x" by (auto simp: set_unique)
    with lt show "first_pos (x # xs) a < first_pos (x # xs) b"
      by (simp add: first_pos_filter)
  qed
  have head: "\<forall>b\<in>set (unique ?F). first_pos (x # xs) x < first_pos (x # xs) b"
    by (auto simp: set_unique)
  from head tail show ?case by simp
qed

lemma insort_key_ranked:
  fixes f :: "'a \<Rightarrow> int" and g :: "'a \<Rightarrow> nat"
  assumes "sorted_wrt (\<lambda>a b. f a < f b \<or> (f a = f b \<and> g a < g b)) ys"
    and "\<forall>y\<in>set ys. g x < g y"
  shows "sorted_wrt (\<lambda>a b. f a < f b \<or> (f a = f b \<and> g a < g b)) (insort_key f x ys)"
  using assms
proof (induction ys)
  case Nil
  show ?case by simp
next
  case (Cons y ys)
  show ?case
  proof (cases "f x \<le> f y")
    case True
    with Cons.prems show ?thesis by (auto simp: order_le_less)
  next
    case False
    with Cons show ?thesis by (auto simp: set_insort_key)
  qed
qed

lemma sort_key_ranked:
  fixes f :: "'a \<Rightarrow> int" and g :: "'a \<Rightarrow> nat"
  assumes "sorted_wrt (\<lambda>a b. g a < g b) xs"
  shows "sorted_wrt (\<lambda>a b. f a < f b \<or> (f a = f b \<and> g a < g b)) (sort_key f xs)"
  using assms
proof (induction xs)
  case Nil
  show ?case by simp
next
  case (Cons x xs)
  then have "sorted_wrt (\<lambda>a b. f a < f b \<or> (f a = f b \<and> g a < g b)) (sort_key f xs)"
    and "\<forall>y\<in>set (sort_key f xs). g x < g y"
    by auto
  then show ?case
    by (simp add: insort_key_ranked)
qed

lemma sum_list_insort_key: "sum_list (map h (insort_key f x ys)) = h x + sum_list (map h ys)"
  for h :: "'a \<Rightarrow> nat"
  by (induction ys) auto

lemma sum_list_sort_key: "sum_list (map h (sort_key f xs)) = sum_list (map h xs)"
  for h :: "'a \<Rightarrow> nat"
  by (induction xs) (auto simp: sum_list_insort_key)

lemma sum_list_take_le: "sum_list (take k ns) \<le> sum_list ns" for ns :: "nat list"
proof -
  have "sum_list ns = sum_list (take k ns) + sum_list (drop k ns)"
    by (metis append_take_drop_id sum_list_append)
  then show ?thesis by simp
qed

lemma value_counts_ranked: "sorted_wrt (ranked_before cs) (value_counts cs)"
proof -
  let ?L = "map (\<lambda>c. (c, count_list cs c)) (unique cs)"
  have "sorted_wrt (\<lambda>a b. first_pos cs (fst a) < first_pos cs (fst b)) ?L"
    using unique_first_pos [of cs] by (simp add: sorted_wrt_map)
  then have "sorted_wrt (\<lambda>a b. - int (snd a) < - int (snd b)
       \<or> (- int (snd a) = - int (snd b) \<and> first_pos cs (fst a) < first_pos cs (fst b)))
     (sort_key (\<lambda>p. - int (snd p)) ?L)"
    by (rule sort_key_ranked)
  then show ?thesis
    by (simp add: value_counts_def ranked_before_def [abs_def])
qed

text \<open>Two cuisines seen twice and two seen once: each pair stays in order of first appearance.\<close>

lemma value_counts_example:
  "value_counts [''thai'', ''greek'', ''irish'', ''greek'', ''irish'', ''cuban'']
     = [(''greek'', 2), (''irish'', 2), (''thai'', 1), (''cuban'', 1)]"
  by code_simp

lemma value_counts_entries:
  "p \<in> set (value_counts cs) \<Longrightarrow> fst p \<in> set cs \<and> snd p = count_list cs (fst p)"
  by (auto simp: value_counts_def set_unique)

lemma value_counts_sum: "sum_list (map snd (value_counts cs)) = length cs"
  using sum_count_unique [of cs]
  by (simp add: value_counts_def sum_list_sort_key comp_def)

lemma top_ranking_take: "top_ranking k cs (take k (value_counts cs))"
proof -
  have "sum_list (map snd (take k (value_counts cs))) \<le> sum_list (map snd (value_counts cs))"
    by (simp add: take_map [symmetric] sum_list_take_le)
  moreover have "list_all (\<lambda>p. fst p \<in> set cs \<and> snd p = count_list cs (fst p))
      (take k (value_counts cs))"
    using value_counts_entries [of _ cs]
    by (auto simp: list_all_iff dest: in_set_takeD)
  ultimately show ?thesis
    by (simp add: top_ranking_def value_counts_ranked value_counts_sum)
qed

section \<open>Group means\<close>

lemma length_diet_rows: "length (diet_rows df d) = count_list (map Diet_type df) d"
  by (induction df) (auto simp: diet_rows_def)

lemma dropna_map: "dropna (map f rs) = map (\<lambda>r. the (f r)) (filter (\<lambda>r. f r \<noteq> None) rs)"
  by (induction rs) (auto split: option.splits)

lemma series_mean_spec: "series_mean (map f rs) = spec_mean f rs"
  by (simp add: series_mean_def spec_mean_def dropna_map Let_def)

lemma groupby_mean_keys: "map fst (groupby_mean df) = sort (remdups (map Diet_type df))"
  by (simp add: groupby_mean_def comp_def)

lemma sum_count_sorted_keys:
  "(\<Sum>d\<leftarrow>sort (remdups xs). count_list xs d) = length xs"
proof -
  have "(\<Sum>d\<leftarrow>sort (remdups xs). count_list xs d) = sum (count_list xs) (set (sort (remdups xs)))"
    by (simp add: sum_list_distinct_conv_sum_set)
  also have "\<dots> = length xs"
    by (simp add: sum_count_set)
  finally show ?thesis .
qed

text \<open>
  The scenario of the specification: two paleo records and one vegan record give the
  means 25, 2.5, 10 and 10, 40, 2, and a paleo count of 2.
\<close>

lemma scenario_means:
  "calculate_averages scenario =
     [(''paleo'', \<lparr>mean_protein = Some 25, mean_carbs = Some (5 / 2), mean_fat = Some 10\<rparr>),
      (''vegan'', \<lparr>mean_protein = Some 10, mean_carbs = Some 40, mean_fat = Some 2\<rparr>)]
   \<and> map (\<lambda>e. (fst e, count (snd e))) (detailed_stats scenario) = [(''paleo'', 2), (''vegan'', 1)]"
  by code_simp

text \<open>
  C2. \<^const>\<open>calculate_averages\<close> has one entry per distinct diet type, the groups of
  these keys partition the records, and each of the three means of an entry is the
  specification's mean of its group: sum and count over the records of the group whose
  value for that field is not null, undefined (not a failure) when the group has no such
  record. \<^const>\<open>calculate_average_macros\<close> of the analysis script computes the same.
\<close>

theorem calculate_averages_spec:
  "map fst (calculate_averages df) = sort (remdups (map Diet_type df))
   \<and> distinct (map fst (calculate_averages df))
   \<and> set (map fst (calculate_averages df)) = Diet_type ` set df
   \<and> (\<Sum>d\<leftarrow>map fst (calculate_averages df). length (filter (\<lambda>r. Diet_type r = d) df)) = length df
   \<and> map snd (calculate_averages df) =
       map (\<lambda>d. \<lparr>mean_protein = spec_mean Protein (filter (\<lambda>r. Diet_type r = d) df),
                 mean_carbs = spec_mean Carbs (filter (\<lambda>r. Diet_type r = d) df),
                 mean_fat = spec_mean Fat (filter (\<lambda>r. Diet_type r = d) df)\<rparr>)
         (map fst (calculate_averages df))
   \<and> calculate_average_macros df = calculate_averages df"
proof -
  have keys: "map fst (calculate_averages df) = sort (remdups (map Diet_type df))"
    by (simp add: calculate_averages_def groupby_mean_keys)
  have total: "(\<Sum>d\<leftarrow>sort (remdups (map Diet_type df)). length (filter (\<lambda>r. Diet_type r = d) df)) = length df"
    using sum_count_sorted_keys [of "map Diet_type df"] length_diet_rows [of df]
    by (simp add: diet_rows_def)
  have vals: "map snd (calculate_averages df) =
       map (\<lambda>d. \<lparr>mean_protein = spec_mean Protein (filter (\<lambda>r. Diet_type r = d) df),
                 mean_carbs = spec_mean Carbs (filter (\<lambda>r. Diet_type r = d) df),
                 mean_fat = spec_mean Fat (filter (\<lambda>r. Diet_type r = d) df)\<rparr>)
         (sort (remdups (map Diet_type df)))"
    by (simp add: calculate_averages_def groupby_mean_def comp_def series_mean_spec diet_rows_def)
  show ?thesis
    unfolding keys using total vals
    by (simp add: calculate_average_macros_def calculate_averages_def)
qed

section \<open>Mean, minimum and maximum in exact arithmetic\<close>




section \<open>Mean, minimum and maximum in binary64\<close>


lemma pow2_nat: "0 \<le> k \<Longrightarrow> (2::rat) powi k = 2 ^ nat k"
  by (simp add: power_int_def)















text \<open>With \<open>binade_le\<close>: the binade is the one \<open>x\<close> lies in.\<close>

lemma binade_less:
  assumes "x \<noteq> 0"
  shows "\<bar>x\<bar> < 2 powi (binade x + 1)"
proof -
  obtain p q where pq: "quotient_of x = (p, q)" by (cases "quotient_of x")
  then have q: "0 < q" and x: "x = of_int p / of_int q"
    by (simp_all add: quotient_of_denom_pos quotient_of_div)
  with assms have p: "0 < \<bar>p\<bar>" by auto
  define d where "d = bitlen \<bar>p\<bar> - bitlen q"
  show ?thesis
  proof (cases "2 powi d \<le> \<bar>x\<bar>")
    case False
    then show ?thesis by (simp add: binade_def pq d_def)
  next
    case True
    have lp: "1 \<le> bitlen \<bar>p\<bar>" and lq: "1 \<le> bitlen q"
      using p q by (simp_all add: bitlen_alt_def)
    have "\<bar>p\<bar> < 2 ^ nat (bitlen \<bar>p\<bar>)" "2 ^ nat (bitlen q - 1) \<le> q"
      using bitlen_bounds [OF p] bitlen_bounds [OF q] by simp_all
    then have P: "of_int \<bar>p\<bar> < (2::rat) powi bitlen \<bar>p\<bar>"
      and Q: "(2::rat) powi (bitlen q - 1) \<le> of_int q"
      using lp lq
      by (simp_all add: pow2_nat del: of_int_abs)
    have "\<bar>x\<bar> = of_int \<bar>p\<bar> / of_int q"
      using q by (simp add: x)
    also have "\<dots> < 2 powi bitlen \<bar>p\<bar> / 2 powi (bitlen q - 1)"
      using P Q q by (intro frac_less) simp_all
    also have "\<dots> = 2 powi (d + 1)"
      by (simp add: d_def power_int_diff power_int_add)
    finally show ?thesis
      using True by (simp add: binade_def pq d_def)
  qed
qed

text \<open>
  The rounding on known values: 0.1, 1/3 and 0.1 + 0.2 = 0.30000000000000004; a float is
  left as it is.
\<close>

lemma round64_examples:
  "round64 (1 / 10) = tenth \<and> round64 tenth = tenth
   \<and> round64 (1 / 3) = 6004799503160661 / 2 ^ 54
   \<and> f64_add tenth (round64 (1 / 5)) = 5404319552844596 / 2 ^ 54
   \<and> round64 (25 / 2) = 25 / 2 \<and> round64 (- (1 / 10)) = - tenth"
  by code_simp






section \<open>Detailed statistics and documents\<close>

lemma detailed_stats_keys: "map fst (detailed_stats df) = unique (map Diet_type df)"
  by (simp add: detailed_stats_def comp_def Let_def)

lemma detailed_stats_counts:
  "map (\<lambda>e. count (snd e)) (detailed_stats df) =
     map (\<lambda>d. count_list (map Diet_type df) d) (unique (map Diet_type df))"
  by (simp add: detailed_stats_def comp_def Let_def length_diet_rows)

text \<open>
  C3. The detailed statistics that \<^const>\<open>store_in_nosql\<close> writes have one entry per
  distinct diet type, the count of each entry is the number of records of that diet type,
  and the counts sum to the number of records.
\<close>

theorem detailed_stats_count_total:
  "detailed_statistics (fst (store_in_nosql now avg_macros df dir)) = Some (detailed_stats df)
   \<and> distinct (map fst (detailed_stats df))
   \<and> set (map fst (detailed_stats df)) = Diet_type ` set df
   \<and> map (\<lambda>e. count (snd e)) (detailed_stats df) =
       map (\<lambda>d. length (filter (\<lambda>r. Diet_type r = d) df)) (map fst (detailed_stats df))
   \<and> (\<Sum>e\<leftarrow>detailed_stats df. count (snd e)) = length df"
proof -
  have "(\<Sum>e\<leftarrow>detailed_stats df. count (snd e)) = length (map Diet_type df)"
    using sum_count_unique [of "map Diet_type df"] detailed_stats_counts [of df]
    by simp
  moreover have "map (\<lambda>e. count (snd e)) (detailed_stats df) =
       map (\<lambda>d. length (filter (\<lambda>r. Diet_type r = d) df)) (map fst (detailed_stats df))"
    using length_diet_rows [of df]
    by (simp add: detailed_stats_counts detailed_stats_keys diet_rows_def)
  ultimately show ?thesis
    by (simp add: store_in_nosql_def Let_def detailed_stats_keys distinct_unique set_unique)
qed

lemma build_documents_ranked:
  "list_all (\<lambda>doc. top_ranking 5 (map Cuisine_type (diet_rows df (diet_type doc))) (cuisines doc)
                  \<and> recipe_count doc = length (diet_rows df (diet_type doc)))
     (build_documents now k df avg_macros)"
  by (induction now k df avg_macros rule: build_documents.induct)
     (simp_all add: Let_def top_ranking_take)

lemma detailed_stats_ranked:
  "list_all (\<lambda>e. top_ranking 3 (map Cuisine_type (diet_rows df (fst e))) (top_cuisines (snd e))
                \<and> count (snd e) = length (diet_rows df (fst e)))
     (detailed_stats df)"
  by (simp add: detailed_stats_def list_all_iff Let_def top_ranking_take)

text \<open>
  C5. In the detailed statistics and in the documents that \<^const>\<open>store_in_nosql\<close>
  writes, the cuisine counts of every diet type are a ranking of the cuisines of that
  diet type's records: descending by count, equal counts in first-seen order, every
  listed cuisine one of the group with its count, the counts summing to at most the
  group's count; at most 3 entries in \<^const>\<open>top_cuisines\<close>, at most 5 in
  \<^const>\<open>cuisines\<close>.
\<close>

theorem top_cuisines_ranked:
  "detailed_statistics (fst (store_in_nosql now avg_macros df dir)) = Some (detailed_stats df)
   \<and> diet_documents (fst (store_in_nosql now avg_macros df dir))
       = Some (build_documents now 1 df avg_macros)
   \<and> list_all (\<lambda>e. top_ranking 3 (map Cuisine_type (diet_rows df (fst e))) (top_cuisines (snd e))
                \<and> count (snd e) = length (diet_rows df (fst e)))
        (detailed_stats df)
   \<and> list_all (\<lambda>doc. top_ranking 5 (map Cuisine_type (diet_rows df (diet_type doc))) (cuisines doc)
                  \<and> recipe_count doc = length (diet_rows df (diet_type doc)))
        (build_documents now 1 df avg_macros)"
  by (simp add: store_in_nosql_def Let_def build_documents_ranked detailed_stats_ranked)

lemma build_documents_diet_type: "map diet_type (build_documents now k df avg_macros) = map fst avg_macros"
  by (induction now k df avg_macros rule: build_documents.induct) (simp_all add: Let_def)

text \<open>
  The identifier the code builds with \<^const>\<open>lower\<close> and \<^const>\<open>replace_space\<close> is the
  specification's, character by character: checked on each of the 256 characters.
\<close>

lemma all_chars_id:
  "list_all (\<lambda>c. replace_space (lower [c]) = [spec_id_char c]
                 \<and> spec_id_char c \<noteq> CHR '' '' \<and> spec_id_char c \<notin> set upper_letters) all_chars"
  by code_simp

lemma set_bools: "set bools = UNIV"
  by (auto simp: bools_def)

lemma in_all_chars: "c \<in> set all_chars"
  by (cases c) (simp add: all_chars_def set_bools, blast)

lemma id_char:
  "replace_space (lower [c]) = [spec_id_char c]
   \<and> spec_id_char c \<noteq> CHR '' '' \<and> spec_id_char c \<notin> set upper_letters"
  using all_chars_id in_all_chars [of c] by (simp add: list_all_iff)

lemma id_string: "replace_space (lower d) = spec_document_id d"
proof (induction d)
  case Nil
  show ?case by (simp add: replace_space_def lower_def spec_document_id_def)
next
  case (Cons c d)
  have "replace_space (lower (c # d)) = replace_space (lower [c]) @ replace_space (lower d)"
    by (simp add: replace_space_def lower_def)
  with Cons id_char [of c] show ?case by (simp add: spec_document_id_def)
qed

lemma spec_document_id_plain:
  "length (spec_document_id d) = length d
   \<and> CHR '' '' \<notin> set (spec_document_id d)
   \<and> set (spec_document_id d) \<inter> set upper_letters = {}"
proof -
  have "\<forall>c. spec_id_char c \<noteq> CHR '' '' \<and> spec_id_char c \<notin> set upper_letters"
    using id_char by blast
  then show ?thesis
    by (auto simp: spec_document_id_def)
qed

lemma build_documents_spec_id:
  "list_all (\<lambda>doc. doc_id doc = spec_document_id (diet_type doc))
     (build_documents now k df avg_macros)"
  by (induction now k df avg_macros rule: build_documents.induct)
     (simp_all add: Let_def id_string)

text \<open>
  C10. The documents written for the grouped means of a dataset are, in order, one per
  distinct diet type in ascending order of the diet type (strings compared code point
  by code point). The identifier of each is the specification's identifier of its diet
  type: every letter in lower case, every space an underscore, nothing else changed; so
  it is as long as the diet type and holds neither a space nor an upper-case letter.
\<close>

theorem documents_one_per_diet_sorted:
  "diet_documents (fst (store_in_nosql now (calculate_averages df) df dir))
       = Some (build_documents now 1 df (calculate_averages df))
   \<and> map diet_type (build_documents now 1 df (calculate_averages df))
       = sort (remdups (map Diet_type df))
   \<and> sorted (map diet_type (build_documents now 1 df (calculate_averages df)))
   \<and> distinct (map diet_type (build_documents now 1 df (calculate_averages df)))
   \<and> set (map diet_type (build_documents now 1 df (calculate_averages df))) = Diet_type ` set df
   \<and> map doc_id (build_documents now 1 df (calculate_averages df))
       = map spec_document_id
           (map diet_type (build_documents now 1 df (calculate_averages df)))
   \<and> list_all (\<lambda>doc. length (doc_id doc) = length (diet_type doc)
                    \<and> CHR '' '' \<notin> set (doc_id doc)
                    \<and> set (doc_id doc) \<inter> set upper_letters = {})
        (build_documents now 1 df (calculate_averages df))"
proof -
  let ?docs = "build_documents now 1 df (calculate_averages df)"
  have each: "list_all (\<lambda>doc. doc_id doc = spec_document_id (diet_type doc)) ?docs"
    by (rule build_documents_spec_id)
  then have ids: "map doc_id ?docs = map spec_document_id (map diet_type ?docs)"
    by (simp add: list_all_iff)
  have plain: "list_all (\<lambda>doc. length (doc_id doc) = length (diet_type doc)
                    \<and> CHR '' '' \<notin> set (doc_id doc)
                    \<and> set (doc_id doc) \<inter> set upper_letters = {}) ?docs"
    using each spec_document_id_plain by (simp add: list_all_iff)
  have keys: "map diet_type ?docs = sort (remdups (map Diet_type df))"
    by (simp add: build_documents_diet_type calculate_averages_def groupby_mean_keys)
  have stored: "diet_documents (fst (store_in_nosql now (calculate_averages df) df dir)) = Some ?docs"
    by (simp add: store_in_nosql_def Let_def)
  have "sorted (map diet_type ?docs)" "distinct (map diet_type ?docs)"
    "set (map diet_type ?docs) = Diet_type ` set df"
    unfolding keys by simp_all
  with stored keys ids plain show ?thesis
    by blast
qed

text \<open>
  Four records of three diet types: the capital letters sort before the small ones, and
  \<open>Keto Diet\<close> gets the identifier \<open>keto_diet\<close>.
\<close>

theorem documents_one_per_diet_sorted_witness:
  "map diet_type (build_documents (\<lambda>k. ''t'') 1 named_frame (calculate_averages named_frame))
     = [''DASH'', ''Keto Diet'', ''keto'']
   \<and> map doc_id (build_documents (\<lambda>k. ''t'') 1 named_frame (calculate_averages named_frame))
     = [''dash'', ''keto_diet'', ''keto'']"
proof -
  let ?docs = "build_documents (\<lambda>k. ''t'') 1 named_frame (calculate_averages named_frame)"
  have keys: "sort (remdups (map Diet_type named_frame)) = [''DASH'', ''Keto Diet'', ''keto'']"
    by code_simp
  have ids: "map spec_document_id [''DASH'', ''Keto Diet'', ''keto'']
      = [''dash'', ''keto_diet'', ''keto'']"
    by code_simp
  have "map diet_type ?docs = sort (remdups (map Diet_type named_frame))"
    and "map doc_id ?docs = map spec_document_id (map diet_type ?docs)"
    using documents_one_per_diet_sorted [of "\<lambda>k. ''t''" named_frame empty_store]
    by blast+
  with keys ids show ?thesis
    by (simp only:)
qed

lemma build_documents_content:
  "map document_content (build_documents now1 k1 df avg_macros)
     = map document_content (build_documents now2 k2 df avg_macros)"
  by (induction avg_macros arbitrary: k1 k2) (auto simp: Let_def document_content_def)

text \<open>
  C8. Two successful runs of \<^const>\<open>process_data\<close> on the same dataset, at any two
  clocks and over any two earlier states of the store, leave the same means, detailed
  statistics, metadata and documents once the timestamps are removed, and return the same
  message and results; so does a second run over the store the first one left.
\<close>

theorem pipeline_deterministic:
  "store_content (fst (process_data now1 True True (Some df) dir1))
     = store_content (fst (process_data now2 True True (Some df) dir2))
   \<and> snd (process_data now1 True True (Some df) dir1)
       = snd (process_data now2 True True (Some df) dir2)
   \<and> store_content (fst (process_data now2 True True (Some df)
        (fst (process_data now1 True True (Some df) dir1))))
       = store_content (fst (process_data now1 True True (Some df) dir1))
   \<and> snd (store_in_nosql now1 (calculate_averages df) df dir1)
       = snd (store_in_nosql now2 (calculate_averages df) df dir2)"
  using build_documents_content [of now1 1 df "calculate_averages df" now2 1]
  by (simp add: process_data_def store_in_nosql_def store_content_def Let_def
      metadata_content_def)

section \<open>Imputation of missing values\<close>

lemma load_and_clean_data_map: "load_and_clean_data df = map (clean_row df) df"
  by (simp add: load_and_clean_data_def Let_def comp_def clean_row_def)

lemma series_mean_None: "(series_mean xs = None) = (\<forall>x\<in>set xs. x = None)"
proof -
  have "(dropna xs = []) = (\<forall>x\<in>set xs. x = None)"
    by (induction xs rule: dropna.induct) auto
  then show ?thesis by (simp add: series_mean_def Let_def)
qed

lemma dropna_filled:
  "dropna (map (\<lambda>r. fillna (Some m) (f r)) rs) = map (\<lambda>r. case f r of None \<Rightarrow> m | Some v \<Rightarrow> v) rs"
  by (induction rs) (auto simp: fillna_def split: option.splits)

lemma series_mean_filled:
  "rs \<noteq> [] \<Longrightarrow>
   series_mean (map (\<lambda>r. fillna (Some m) (f r)) rs)
     = Some ((\<Sum>r\<leftarrow>rs. case f r of None \<Rightarrow> m | Some v \<Rightarrow> v) / of_nat (length rs))"
  by (simp add: series_mean_def dropna_filled Let_def)

lemma diet_rows_clean: "diet_rows (map (clean_row df) rs) d = map (clean_row df) (diet_rows rs d)"
  by (induction rs) (auto simp: diet_rows_def clean_row_def)

lemma diet_rows_nonempty: "d \<in> Diet_type ` set df \<Longrightarrow> diet_rows df d \<noteq> []"
  by (auto simp: diet_rows_def filter_empty_conv)

lemma group_mean_filled:
  assumes some: "\<exists>r\<in>set df. f r \<noteq> None" and d: "d \<in> Diet_type ` set df"
  shows "series_mean (map (\<lambda>r. fillna (series_mean (map f df)) (f r)) (diet_rows df d))
           = Some ((\<Sum>r\<leftarrow>diet_rows df d. the (imputed f df r)) / of_nat (length (diet_rows df d)))"
proof -
  from some obtain m where m: "series_mean (map f df) = Some m"
    using series_mean_None [of "map f df"] by auto
  have "(\<lambda>r. case f r of None \<Rightarrow> m | Some v \<Rightarrow> v) = (\<lambda>r. the (imputed f df r))"
    using m by (auto simp: imputed_def series_mean_spec split: option.splits)
  then show ?thesis
    using series_mean_filled [OF diet_rows_nonempty [OF d], of m f] m by simp
qed

lemma cleaned_group_means:
  "groupby_mean (load_and_clean_data df) =
     map (\<lambda>d. (d, \<lparr>mean_protein = series_mean (map (\<lambda>r. fillna (series_mean (map Protein df)) (Protein r)) (diet_rows df d)),
                    mean_carbs = series_mean (map (\<lambda>r. fillna (series_mean (map Carbs df)) (Carbs r)) (diet_rows df d)),
                    mean_fat = series_mean (map (\<lambda>r. fillna (series_mean (map Fat df)) (Fat r)) (diet_rows df d))\<rparr>))
       (sort (remdups (map Diet_type df)))"
proof -
  have keys: "map Diet_type (map (clean_row df) df) = map Diet_type df"
    by (simp add: clean_row_def comp_def)
  show ?thesis
    unfolding groupby_mean_def load_and_clean_data_map keys diet_rows_clean
    by (simp add: comp_def clean_row_def)
qed

lemma cleaned_mean_column:
  assumes "\<exists>r\<in>set df. f r \<noteq> None"
  shows "map (\<lambda>d. series_mean (map (\<lambda>r. fillna (series_mean (map f df)) (f r)) (diet_rows df d)))
           (sort (remdups (map Diet_type df)))
         = map (\<lambda>d. Some ((\<Sum>r\<leftarrow>diet_rows df d. the (imputed f df r)) / of_nat (length (diet_rows df d))))
           (sort (remdups (map Diet_type df)))"
  using assms by (intro map_cong refl group_mean_filled) auto

text \<open>
  C9. \<^const>\<open>load_and_clean_data\<close> leaves the string columns and the non-null values
  alone and replaces every null of the three numeric columns by the mean of that column
  over the whole dataset. For a column with at least one non-null value, no record has a
  null in it afterwards, and the group means that \<^const>\<open>calculate_average_macros\<close>
  computes from the cleaned data are taken over all records of the group, the imputed
  values included in sum and count.
\<close>

theorem load_and_clean_data_fills:
  "map Diet_type (load_and_clean_data df) = map Diet_type df
   \<and> map Cuisine_type (load_and_clean_data df) = map Cuisine_type df
   \<and> map Recipe_name (load_and_clean_data df) = map Recipe_name df
   \<and> map Protein (load_and_clean_data df) = map (imputed Protein df) df
   \<and> map Carbs (load_and_clean_data df) = map (imputed Carbs df) df
   \<and> map Fat (load_and_clean_data df) = map (imputed Fat df) df
   \<and> ((\<exists>r\<in>set df. Protein r \<noteq> None) \<longrightarrow>
        list_all (\<lambda>r. Protein r \<noteq> None) (load_and_clean_data df)
        \<and> map (\<lambda>e. mean_protein (snd e)) (calculate_average_macros (load_and_clean_data df))
            = map (\<lambda>d. Some ((\<Sum>r\<leftarrow>diet_rows df d. the (imputed Protein df r))
                              / of_nat (length (diet_rows df d))))
                (sort (remdups (map Diet_type df))))
   \<and> ((\<exists>r\<in>set df. Carbs r \<noteq> None) \<longrightarrow>
        list_all (\<lambda>r. Carbs r \<noteq> None) (load_and_clean_data df)
        \<and> map (\<lambda>e. mean_carbs (snd e)) (calculate_average_macros (load_and_clean_data df))
            = map (\<lambda>d. Some ((\<Sum>r\<leftarrow>diet_rows df d. the (imputed Carbs df r))
                              / of_nat (length (diet_rows df d))))
                (sort (remdups (map Diet_type df))))
   \<and> ((\<exists>r\<in>set df. Fat r \<noteq> None) \<longrightarrow>
        list_all (\<lambda>r. Fat r \<noteq> None) (load_and_clean_data df)
        \<and> map (\<lambda>e. mean_fat (snd e)) (calculate_average_macros (load_and_clean_data df))
            = map (\<lambda>d. Some ((\<Sum>r\<leftarrow>diet_rows df d. the (imputed Fat df r))
                              / of_nat (length (diet_rows df d))))
                (sort (remdups (map Diet_type df))))"
proof -
  have strings: "map Diet_type (load_and_clean_data df) = map Diet_type df"
    "map Cuisine_type (load_and_clean_data df) = map Cuisine_type df"
    "map Recipe_name (load_and_clean_data df) = map Recipe_name df"
    by (simp_all add: load_and_clean_data_map clean_row_def comp_def)
  have cols: "map Protein (load_and_clean_data df) = map (imputed Protein df) df"
    "map Carbs (load_and_clean_data df) = map (imputed Carbs df) df"
    "map Fat (load_and_clean_data df) = map (imputed Fat df) df"
    by (simp_all add: load_and_clean_data_map clean_row_def comp_def fillna_def
        series_mean_spec imputed_def)
  have filled: "(\<exists>r\<in>set df. f r \<noteq> None) \<longrightarrow> list_all (\<lambda>c. c \<noteq> None) (map (imputed f df) df)"
    for f
    using series_mean_None [of "map f df"]
    by (auto simp: list_all_iff imputed_def series_mean_spec split: option.splits)
  have p1: "(\<exists>r\<in>set df. Protein r \<noteq> None) \<longrightarrow>
      list_all (\<lambda>r. Protein r \<noteq> None) (load_and_clean_data df)"
    using filled [of Protein] cols(1) [symmetric] by (simp add: list_all_iff)
  have c1: "(\<exists>r\<in>set df. Carbs r \<noteq> None) \<longrightarrow>
      list_all (\<lambda>r. Carbs r \<noteq> None) (load_and_clean_data df)"
    using filled [of Carbs] cols(2) [symmetric] by (simp add: list_all_iff)
  have f1: "(\<exists>r\<in>set df. Fat r \<noteq> None) \<longrightarrow>
      list_all (\<lambda>r. Fat r \<noteq> None) (load_and_clean_data df)"
    using filled [of Fat] cols(3) [symmetric] by (simp add: list_all_iff)
  have p2: "(\<exists>r\<in>set df. Protein r \<noteq> None) \<longrightarrow>
      map (\<lambda>e. mean_protein (snd e)) (calculate_average_macros (load_and_clean_data df))
        = map (\<lambda>d. Some ((\<Sum>r\<leftarrow>diet_rows df d. the (imputed Protein df r))
                          / of_nat (length (diet_rows df d))))
            (sort (remdups (map Diet_type df)))"
    using cleaned_mean_column [of df Protein]
    by (simp add: calculate_average_macros_def cleaned_group_means comp_def)
  have c2: "(\<exists>r\<in>set df. Carbs r \<noteq> None) \<longrightarrow>
      map (\<lambda>e. mean_carbs (snd e)) (calculate_average_macros (load_and_clean_data df))
        = map (\<lambda>d. Some ((\<Sum>r\<leftarrow>diet_rows df d. the (imputed Carbs df r))
                          / of_nat (length (diet_rows df d))))
            (sort (remdups (map Diet_type df)))"
    using cleaned_mean_column [of df Carbs]
    by (simp add: calculate_average_macros_def cleaned_group_means comp_def)
  have f2: "(\<exists>r\<in>set df. Fat r \<noteq> None) \<longrightarrow>
      map (\<lambda>e. mean_fat (snd e)) (calculate_average_macros (load_and_clean_data df))
        = map (\<lambda>d. Some ((\<Sum>r\<leftarrow>diet_rows df d. the (imputed Fat df r))
                          / of_nat (length (diet_rows df d))))
            (sort (remdups (map Diet_type df)))"
    using cleaned_mean_column [of df Fat]
    by (simp add: calculate_average_macros_def cleaned_group_means comp_def)
  from strings cols p1 c1 f1 p2 c2 f2 show ?thesis by blast
qed

text \<open>
  A frame whose second record has no macronutrient value: the column means 20, 22.5 and 6
  fill it, and the paleo means of the cleaned frame are taken over both paleo records.
\<close>

theorem load_and_clean_data_fills_witness:
  "(\<exists>r\<in>set sparse_frame. Protein r \<noteq> None)
   \<and> (\<exists>r\<in>set sparse_frame. Carbs r \<noteq> None)
   \<and> (\<exists>r\<in>set sparse_frame. Fat r \<noteq> None)
   \<and> list_all (\<lambda>r. Protein r \<noteq> None) (load_and_clean_data sparse_frame)
   \<and> list_all (\<lambda>r. Carbs r \<noteq> None) (load_and_clean_data sparse_frame)
   \<and> list_all (\<lambda>r. Fat r \<noteq> None) (load_and_clean_data sparse_frame)
   \<and> map Protein (load_and_clean_data sparse_frame) = [Some 30, Some 20, Some 10]
   \<and> map Carbs (load_and_clean_data sparse_frame) = [Some 5, Some (45 / 2), Some 40]
   \<and> map Fat (load_and_clean_data sparse_frame) = [Some 10, Some 6, Some 2]
   \<and> map (\<lambda>e. mean_protein (snd e)) (calculate_average_macros (load_and_clean_data sparse_frame))
       = [Some 25, Some 10]"
proof -
  have hyps: "\<exists>r\<in>set sparse_frame. Protein r \<noteq> None"
    "\<exists>r\<in>set sparse_frame. Carbs r \<noteq> None"
    "\<exists>r\<in>set sparse_frame. Fat r \<noteq> None"
    by (simp_all add: sparse_frame_def)
  have vals: "map (imputed Protein sparse_frame) sparse_frame = [Some 30, Some 20, Some 10]"
    "map (imputed Carbs sparse_frame) sparse_frame = [Some 5, Some (45 / 2), Some 40]"
    "map (imputed Fat sparse_frame) sparse_frame = [Some 10, Some 6, Some 2]"
    by (simp_all add: sparse_frame_def imputed_def spec_mean_def)
  have groups: "map (\<lambda>d. Some ((\<Sum>r\<leftarrow>diet_rows sparse_frame d. the (imputed Protein sparse_frame r))
                              / of_nat (length (diet_rows sparse_frame d))))
                (sort (remdups (map Diet_type sparse_frame)))
              = [Some 25, Some 10]"
    by code_simp
  from hyps vals groups load_and_clean_data_fills [of sparse_frame] show ?thesis
    by simp
qed

text \<open>A column without any value has no mean to fill it with and stays null.\<close>

lemma load_and_clean_data_all_null:
  "\<forall>r\<in>set df. Fat r = None \<Longrightarrow> map Fat (load_and_clean_data df) = map Fat df"
  using series_mean_None [of "map Fat df"]
  by (simp add: load_and_clean_data_map clean_row_def comp_def fillna_def)

section \<open>Derived ratios\<close>

text \<open>
  C4, as amended. \<^const>\<open>add_new_metrics\<close> keeps the rows and gives each its two
  ratios. For a row whose protein and carbs are both present, the protein-to-carbs ratio
  is their quotient when carbs is not zero and is undefined exactly when carbs is zero:
  the infinity or NaN of the division by zero is computed and then masked, nothing is
  raised. A null protein or a null carbs makes the ratio undefined as well. The same
  holds of the carbs-to-fat ratio with carbs and fat.
\<close>

theorem row_metrics_ratios:
  "map fst (add_new_metrics df) = df
   \<and> map snd (add_new_metrics df) = map row_metrics df
   \<and> (Protein r = None \<or> Carbs r = None \<longrightarrow> Protein_to_Carbs_ratio (row_metrics r) = NaN)
   \<and> (Carbs r = None \<or> Fat r = None \<longrightarrow> Carbs_to_Fat_ratio (row_metrics r) = NaN)
   \<and> (\<forall>p c. Protein r = Some p \<and> Carbs r = Some c \<longrightarrow>
         Protein_to_Carbs_ratio (row_metrics r) = (if c = 0 then NaN else Finite (p / c))
         \<and> (Protein_to_Carbs_ratio (row_metrics r) = NaN) = (c = 0))
   \<and> (\<forall>c f. Carbs r = Some c \<and> Fat r = Some f \<longrightarrow>
         Carbs_to_Fat_ratio (row_metrics r) = (if f = 0 then NaN else Finite (c / f))
         \<and> (Carbs_to_Fat_ratio (row_metrics r) = NaN) = (f = 0))"
proof -
  have rows: "map fst (add_new_metrics df) = df"
    "map snd (add_new_metrics df) = map row_metrics df"
    by (simp_all add: add_new_metrics_def comp_def)
  have ratios:
    "(Protein r = None \<or> Carbs r = None \<longrightarrow> Protein_to_Carbs_ratio (row_metrics r) = NaN)
     \<and> (Carbs r = None \<or> Fat r = None \<longrightarrow> Carbs_to_Fat_ratio (row_metrics r) = NaN)
     \<and> (\<forall>p c. Protein r = Some p \<and> Carbs r = Some c \<longrightarrow>
           Protein_to_Carbs_ratio (row_metrics r) = (if c = 0 then NaN else Finite (p / c))
           \<and> (Protein_to_Carbs_ratio (row_metrics r) = NaN) = (c = 0))
     \<and> (\<forall>c f. Carbs r = Some c \<and> Fat r = Some f \<longrightarrow>
           Carbs_to_Fat_ratio (row_metrics r) = (if f = 0 then NaN else Finite (c / f))
           \<and> (Carbs_to_Fat_ratio (row_metrics r) = NaN) = (f = 0))"
    by (cases "Protein r"; cases "Carbs r"; cases "Fat r")
       (auto simp: row_metrics_def np_where_def ne_zero_def)
  from rows ratios show ?thesis by simp
qed

text \<open>
  The second record of the specification's scenario: carbs is 0, the division gives an
  infinity, and the ratio stored is NaN; fat is 10 and the second ratio is 0.
\<close>

theorem row_metrics_ratios_witness:
  "Protein zero_carbs_row = Some 20 \<and> Carbs zero_carbs_row = Some 0
   \<and> Fat zero_carbs_row = Some 10
   \<and> np_divide (Protein zero_carbs_row) (Carbs zero_carbs_row) = Infinity
   \<and> Protein_to_Carbs_ratio (row_metrics zero_carbs_row) = NaN
   \<and> Carbs_to_Fat_ratio (row_metrics zero_carbs_row) = Finite 0"
  using row_metrics_ratios [of "[]" zero_carbs_row]
  by (simp add: zero_carbs_row_def)

text \<open>
  C4 as stated fails on a record with a null: protein is null and carbs is 5, the ratio
  is undefined, and carbs is not zero.
\<close>

theorem row_metrics_null_counterexample:
  "\<not> ((Protein_to_Carbs_ratio (row_metrics null_protein_row) = NaN)
        = (Carbs null_protein_row = Some 0))"
  by (simp add: row_metrics_def np_where_def ne_zero_def null_protein_row_def)

end
